theory Spec2Isabelle
  imports Main
begin

section \<open>JavaScript strings\<close>

text \<open>
  The component under study is \<^verbatim>\<open>src/UI-main/src/components/AgentMode.tsx\<close>.
  A JavaScript string is modelled as a \<^typ>\<open>string\<close>, each \<^typ>\<open>char\<close> standing
  for the code unit of the same number (the range U+0000 to U+00FF). Within that range
  the definitions below follow ECMAScript: white space is TAB, LF, VT, FF, CR, SP and
  NBSP, the line terminators are LF and CR, a word character is an ASCII letter, a digit
  or the underscore, and \<^verbatim>\<open>toLowerCase\<close> moves A to Z and the upper-case letters of
  U+00C0 to U+00DE (the multiplication sign apart) by 32.
\<close>

definition isWhiteSpace :: "char \<Rightarrow> bool" where
  "isWhiteSpace c = (of_char c \<in> set [9, 10, 11, 12, 13, 32, 160 :: nat])"

definition isLineTerminator :: "char \<Rightarrow> bool" where
  "isLineTerminator c = (of_char c \<in> set [10, 13 :: nat])"

definition isWordChar :: "char \<Rightarrow> bool" where
  "isWordChar c =
     (let n = of_char c :: nat
      in (97 \<le> n \<and> n \<le> 122) \<or> (65 \<le> n \<and> n \<le> 90) \<or> (48 \<le> n \<and> n \<le> 57) \<or> n = 95)"

definition toLowerChar :: "char \<Rightarrow> char" where
  "toLowerChar c =
     (let n = of_char c :: nat
      in if (65 \<le> n \<and> n \<le> 90) \<or> (192 \<le> n \<and> n \<le> 222 \<and> n \<noteq> 215)
         then char_of (n + 32) else c)"

definition toLowerCase :: "string \<Rightarrow> string" where
  "toLowerCase s = map toLowerChar s"

definition trim :: "string \<Rightarrow> string" where
  "trim s = rev (dropWhile isWhiteSpace (rev (dropWhile isWhiteSpace s)))"

fun startsWith :: "string \<Rightarrow> string \<Rightarrow> bool" where
  "startsWith s [] = True"
| "startsWith [] (p # ps) = False"
| "startsWith (c # cs) (p # ps) = (if c = p then startsWith cs ps else False)"

fun includesStr :: "string \<Rightarrow> string \<Rightarrow> bool" where
  "includesStr [] p = startsWith [] p"
| "includesStr (c # cs) p = (if startsWith (c # cs) p then True else includesStr cs p)"

section \<open>The regular expressions of the component\<close>

text \<open>
  The tests of the component are alternations of literals and of pairs of literals
  joined by \<^verbatim>\<open>.*\<close>. \<open>Lit a\<close> stands for the literal \<^verbatim>\<open>a\<close> and \<open>DotStar a b\<close> for
  \<^verbatim>\<open>a.*b\<close>, where the dot matches every character but a line terminator.
  \<open>regexTest\<close> is \<^verbatim>\<open>RegExp.prototype.test\<close>: some alternative matches at some position.
  All patterns are lower-case ASCII, so the flag \<^verbatim>\<open>i\<close> is the test of the lower-cased
  subject.
\<close>

datatype alt = Lit string | DotStar string string

fun dotStarThen :: "string \<Rightarrow> string \<Rightarrow> bool" where
  "dotStarThen b [] = startsWith [] b"
| "dotStarThen b (c # cs) =
     (if startsWith (c # cs) b then True
      else if isLineTerminator c then False
      else dotStarThen b cs)"

fun altAt :: "alt \<Rightarrow> string \<Rightarrow> bool" where
  "altAt (Lit a) s = startsWith s a"
| "altAt (DotStar a b) s = (if startsWith s a then dotStarThen b (drop (length a) s) else False)"

fun regexTest :: "alt list \<Rightarrow> string \<Rightarrow> bool" where
  "regexTest r [] = list_ex (\<lambda>a. altAt a []) r"
| "regexTest r (c # cs) = (if list_ex (\<lambda>a. altAt a (c # cs)) r then True else regexTest r cs)"

definition regexTestI :: "alt list \<Rightarrow> string \<Rightarrow> bool" where
  "regexTestI r s = regexTest r (toLowerCase s)"

subsection \<open>Splitting on a regular expression\<close>

text \<open>
  \<^verbatim>\<open>\b\<close> holds between two positions when exactly one of them is a word character;
  the start and the end of the string count as non-word. \<open>keywordAt kw prev s\<close> is the
  match of \<^verbatim>\<open>\bkw\b\<close> with flag \<^verbatim>\<open>i\<close> at the start of \<open>s\<close>, \<open>prev\<close> being the character
  before it; \<open>kw\<close> is lower-case, and the characters of \<open>s\<close> are compared lower-cased.
\<close>

definition isWord :: "char option \<Rightarrow> bool" where
  "isWord x = (case x of None \<Rightarrow> False | Some c \<Rightarrow> isWordChar c)"

definition charAt :: "string \<Rightarrow> nat \<Rightarrow> char option" where
  "charAt s i = (case drop i s of [] \<Rightarrow> None | c # _ \<Rightarrow> Some c)"

definition wordBoundary :: "char option \<Rightarrow> char option \<Rightarrow> bool" where
  "wordBoundary a b = (isWord a \<noteq> isWord b)"

fun startsWithIgnoreCase :: "string \<Rightarrow> string \<Rightarrow> bool" where
  "startsWithIgnoreCase s [] = True"
| "startsWithIgnoreCase [] (p # ps) = False"
| "startsWithIgnoreCase (c # cs) (p # ps) =
     (if toLowerChar c = p then startsWithIgnoreCase cs ps else False)"

definition keywordAt :: "string \<Rightarrow> char option \<Rightarrow> string \<Rightarrow> bool" where
  "keywordAt kw prev s =
     (wordBoundary prev (charAt s 0) \<and>
      startsWithIgnoreCase s kw \<and>
      wordBoundary (charAt s (length kw - 1)) (charAt s (length kw)))"

text \<open>
  The separator of \<^verbatim>\<open>splitInstructions\<close>,
  \<^verbatim>\<open>/\band\b|\bthen\b|\n|\r|\r\n|\.|;|,|\|\||\|\s/i\<close>: the length of its match at the start
  of \<open>s\<close>, the alternatives tried in the order of the source.
\<close>

definition instructionSeparator :: "char option \<Rightarrow> string \<Rightarrow> nat option" where
  "instructionSeparator prev s =
     (if keywordAt ''and'' prev s then Some 3
      else if keywordAt ''then'' prev s then Some 4
      else if startsWith s [CHR 0x0A] then Some 1
      else if startsWith s [CHR 0x0D] then Some 1
      else if startsWith s [CHR 0x0D, CHR 0x0A] then Some 2
      else if startsWith s ''.'' then Some 1
      else if startsWith s '';'' then Some 1
      else if startsWith s '','' then Some 1
      else if startsWith s ''||'' then Some 2
      else if startsWith s ''|'' \<and> (case charAt s 1 of None \<Rightarrow> False | Some d \<Rightarrow> isWhiteSpace d)
        then Some 2
      else None)"

text \<open>The separator of \<^verbatim>\<open>splitRelatedActions\<close>, \<^verbatim>\<open>/\band\b|\bthen\b|;/i\<close>.\<close>

definition actionSeparator :: "char option \<Rightarrow> string \<Rightarrow> nat option" where
  "actionSeparator prev s =
     (if keywordAt ''and'' prev s then Some 3
      else if keywordAt ''then'' prev s then Some 4
      else if startsWith s '';'' then Some 1
      else None)"

text \<open>
  \<^verbatim>\<open>String.prototype.split\<close> with a separator that never matches the empty string:
  scanning from the left, a match at the current position closes the fragment \<open>cur\<close>
  and its \<open>n\<close> characters are skipped; otherwise the character joins the fragment.
  \<open>prev\<close> is the character before the current position.
\<close>

fun splitLoop ::
  "(char option \<Rightarrow> string \<Rightarrow> nat option) \<Rightarrow> char option \<Rightarrow> nat \<Rightarrow> string \<Rightarrow> string \<Rightarrow> string list"
where
  "splitLoop sep prev skip cur [] = [cur]"
| "splitLoop sep prev skip cur (c # cs) =
     (if 0 < skip then splitLoop sep (Some c) (skip - 1) cur cs
      else case sep prev (c # cs) of
             Some n \<Rightarrow> cur # splitLoop sep (Some c) (n - 1) [] cs
           | None \<Rightarrow> splitLoop sep (Some c) 0 (cur @ [c]) cs)"

definition jsSplit :: "(char option \<Rightarrow> string \<Rightarrow> nat option) \<Rightarrow> string \<Rightarrow> string list" where
  "jsSplit sep s = splitLoop sep None 0 [] s"

section \<open>Instruction segmentation\<close>

text \<open>
  \<^verbatim>\<open>splitInstructions\<close>: split, trim every fragment, keep those longer than three
  characters. A single instruction is returned at once; otherwise the loop over the
  instructions pushes each of them, whichever way its keyword test goes.
\<close>

definition splitInstructions :: "string \<Rightarrow> string list" where
  "splitInstructions input =
     (let instructions =
            filter (\<lambda>instr. 0 < length instr \<and> 3 < length instr)
              (map trim (jsSplit instructionSeparator input))
      in if length instructions = 1 then instructions
         else foldl (\<lambda>refinedInstructions instruction.
                if regexTestI [Lit ''page'', Lit ''image'', Lit ''code'', Lit ''video'', Lit ''text'']
                     instruction
                then refinedInstructions @ [instruction]
                else refinedInstructions @ [instruction])
              [] instructions)"

definition splitRelatedActions :: "string \<Rightarrow> string list" where
  "splitRelatedActions instruction =
     filter (\<lambda>instr. 0 < length instr) (map trim (jsSplit actionSeparator instruction))"

section \<open>Tool requirement inference\<close>

datatype tool =
  ai_powered_search | code_assistant | image_insights | video_summarizer
  | impact_analyzer | test_support

text \<open>
  The first loop of \<^verbatim>\<open>handleGoalSubmit\<close>: the tools an instruction asks for, in the
  order of the tests, and \<open>ai_powered_search\<close> when no test fires. The set
  \<^verbatim>\<open>requiredTools\<close> is written and never read, so it is left out.
\<close>

definition videoPattern :: "alt list" where
  "videoPattern =
     [Lit ''video'', DotStar ''summarize'' ''video'', Lit ''transcribe'',
      DotStar ''video'' ''summarize'']"

definition imagePattern :: "alt list" where
  "imagePattern =
     [Lit ''image'', Lit ''chart'', Lit ''diagram'', Lit ''visual'',
      DotStar ''image'' ''summarize'', DotStar ''summarize'' ''image'',
      DotStar ''analyze'' ''image'', DotStar ''image'' ''analyze'']"

definition codePattern :: "alt list" where
  "codePattern =
     [DotStar ''convert'' ''language'', DotStar ''language'' ''convert'', Lit ''debug'',
      Lit ''refactor'', Lit ''fix'', Lit ''bug'', Lit ''error'', Lit ''optimize'',
      Lit ''performance'', Lit ''documentation'', Lit ''docs'', Lit ''comment'',
      Lit ''dead code'', Lit ''unused'', Lit ''logging'', Lit ''log'',
      DotStar ''code'' ''convert'', DotStar ''convert'' ''code'']"

definition textPattern :: "alt list" where
  "textPattern =
     [Lit ''text'', DotStar ''summarize'' ''text'', DotStar ''text'' ''summarize'',
      DotStar ''summarize'' ''page'', DotStar ''page'' ''summarize'', Lit ''summarize'']"

definition impactPattern :: "alt list" where
  "impactPattern = [Lit ''impact'', Lit ''change'', Lit ''difference'', Lit ''diff'']"

definition testPattern :: "alt list" where
  "testPattern = [Lit ''test'', Lit ''qa'', Lit ''test case'', Lit ''unit test'']"

definition inferTools :: "string \<Rightarrow> tool list" where
  "inferTools instruction =
     (let lowerInstruction = toLowerCase instruction;
          tools =
            (if regexTest videoPattern lowerInstruction then [video_summarizer] else []) @
            (if regexTest imagePattern lowerInstruction then [image_insights] else []) @
            (if regexTest codePattern lowerInstruction then [code_assistant] else []) @
            (if regexTest textPattern lowerInstruction then [ai_powered_search] else []) @
            (if regexTest impactPattern lowerInstruction then [impact_analyzer] else []) @
            (if regexTest testPattern lowerInstruction then [test_support] else [])
      in if length tools = 0 then [ai_powered_search] else tools)"

fun instructionToolsOf :: "string list \<Rightarrow> (string \<times> tool list) list" where
  "instructionToolsOf [] = []"
| "instructionToolsOf (instruction # rest) =
     (instruction, inferTools instruction) # instructionToolsOf rest"

section \<open>Page content types\<close>

record pageWithType =
  title :: string
  content_type :: string

text \<open>
  \<^verbatim>\<open>(pageTypes.find(p => p.title === page)?.content_type) || 'text'\<close>: the type of the
  first entry with the page's title; a missing entry and an empty type both give
  \<^verbatim>\<open>'text'\<close>. Reading the map back with \<^verbatim>\<open>|| 'text'\<close> changes nothing.
\<close>

definition pageContentType :: "pageWithType list \<Rightarrow> string \<Rightarrow> string" where
  "pageContentType pageTypes pg =
     (case find (\<lambda>p. title p = pg) pageTypes of
        None \<Rightarrow> ''text''
      | Some p \<Rightarrow> if content_type p = [] then ''text'' else content_type p)"

section \<open>Page-to-instruction matching\<close>

record matchState =
  matchedInstruction :: "string option"
  matchedTool :: "tool option"
  usedInstructions :: "string set"

text \<open>\<^verbatim>\<open>!matchedInstruction\<close>: \<^verbatim>\<open>null\<close> and the empty string are both falsy.\<close>

definition unmatched :: "matchState \<Rightarrow> bool" where
  "unmatched st = (case matchedInstruction st of None \<Rightarrow> True | Some i \<Rightarrow> i = [])"

text \<open>The choice of \<^verbatim>\<open>bestTool\<close> from the page type, shared by the first two tiers.\<close>

definition bestToolFor :: "string \<Rightarrow> tool list \<Rightarrow> tool" where
  "bestToolFor pageType tools =
     (if pageType = ''video'' \<and> List.member tools video_summarizer then video_summarizer
      else if pageType = ''image'' \<and> List.member tools image_insights then image_insights
      else if pageType = ''code'' \<and> List.member tools code_assistant then code_assistant
      else if pageType = ''text'' \<and> List.member tools ai_powered_search then ai_powered_search
      else case tools of t # _ \<Rightarrow> t | [] \<Rightarrow> ai_powered_search)"

text \<open>\<^verbatim>\<open>s.replace(/\s+/g, r)\<close>: every maximal run of white space becomes \<open>r\<close>.\<close>

fun replaceRuns :: "string \<Rightarrow> bool \<Rightarrow> string \<Rightarrow> string" where
  "replaceRuns r inRun [] = []"
| "replaceRuns r inRun (c # cs) =
     (if isWhiteSpace c then (if inRun then replaceRuns r True cs else r @ replaceRuns r True cs)
      else c # replaceRuns r False cs)"

definition replaceWhiteSpace :: "string \<Rightarrow> string \<Rightarrow> string" where
  "replaceWhiteSpace s r = replaceRuns r False s"

definition mentionsPage :: "string \<Rightarrow> string \<Rightarrow> bool" where
  "mentionsPage instruction pg =
     (let lowerInstruction = toLowerCase instruction;
          lowerPageName = toLowerCase pg
      in includesStr lowerInstruction lowerPageName \<or>
         includesStr lowerInstruction (replaceWhiteSpace lowerPageName ''_'') \<or>
         includesStr lowerInstruction (replaceWhiteSpace lowerPageName ''-''))"

text \<open>
  First tier: the first instruction that mentions the page, whether or not an earlier
  page has used it.
\<close>

fun explicitMention ::
  "string \<Rightarrow> string \<Rightarrow> (string \<times> tool list) list \<Rightarrow> matchState \<Rightarrow> matchState"
where
  "explicitMention pg pageType [] st = st"
| "explicitMention pg pageType ((instruction, tools) # rest) st =
     (if mentionsPage instruction pg
      then st\<lparr>matchedInstruction := Some instruction,
              matchedTool := Some (bestToolFor pageType tools),
              usedInstructions := insert instruction (usedInstructions st)\<rparr>
      else explicitMention pg pageType rest st)"

definition imageKeywords :: "alt list" where
  "imageKeywords = [Lit ''image'', Lit ''chart'', Lit ''diagram'', Lit ''visual'']"

definition codeKeywords :: "alt list" where
  "codeKeywords =
     [Lit ''convert'', Lit ''debug'', Lit ''refactor'', Lit ''fix'', Lit ''bug'', Lit ''error'',
      Lit ''optimize'', Lit ''performance'', Lit ''documentation'', Lit ''docs'',
      Lit ''comment'', Lit ''dead code'', Lit ''unused'', Lit ''logging'', Lit ''log'',
      Lit ''code'']"

definition videoKeywords :: "alt list" where
  "videoKeywords = [Lit ''video'', DotStar ''summarize'' ''video'', Lit ''transcribe'']"

definition keywordOverride :: "string \<Rightarrow> string \<Rightarrow> tool \<Rightarrow> tool" where
  "keywordOverride pageType lowerInstruction bestTool =
     (if pageType = ''image'' \<and> regexTest imageKeywords lowerInstruction then image_insights
      else if pageType = ''code'' \<and> regexTest codeKeywords lowerInstruction then code_assistant
      else if pageType = ''video'' \<and> regexTest videoKeywords lowerInstruction then video_summarizer
      else bestTool)"

text \<open>Second tier: the first instruction no page has used yet, its tool from the page type.\<close>

fun contentTypeMatch ::
  "string \<Rightarrow> (string \<times> tool list) list \<Rightarrow> matchState \<Rightarrow> matchState"
where
  "contentTypeMatch pageType [] st = st"
| "contentTypeMatch pageType ((instruction, tools) # rest) st =
     (if instruction \<in> usedInstructions st then contentTypeMatch pageType rest st
      else st\<lparr>matchedInstruction := Some instruction,
              matchedTool :=
                Some (keywordOverride pageType (toLowerCase instruction) (bestToolFor pageType tools)),
              usedInstructions := insert instruction (usedInstructions st)\<rparr>)"

text \<open>Third tier: the first instruction no page has used yet, with its first tool.\<close>

fun firstAvailable :: "(string \<times> tool list) list \<Rightarrow> matchState \<Rightarrow> matchState" where
  "firstAvailable [] st = st"
| "firstAvailable ((instruction, tools) # rest) st =
     (if instruction \<in> usedInstructions st then firstAvailable rest st
      else st\<lparr>matchedInstruction := Some instruction,
              matchedTool := Some (case tools of t # _ \<Rightarrow> t | [] \<Rightarrow> ai_powered_search),
              usedInstructions := insert instruction (usedInstructions st)\<rparr>)"

text \<open>Last tier: \<^verbatim>\<open>instructions[0] || 'Analyze this content'\<close> and the search tool.\<close>

definition defaultInstruction :: "string list \<Rightarrow> string" where
  "defaultInstruction instructions =
     (case instructions of
        [] \<Rightarrow> ''Analyze this content''
      | i # _ \<Rightarrow> if i = [] then ''Analyze this content'' else i)"

definition useDefault :: "string list \<Rightarrow> matchState \<Rightarrow> matchState" where
  "useDefault instructions st =
     st\<lparr>matchedInstruction := Some (defaultInstruction instructions),
        matchedTool := Some ai_powered_search\<rparr>"

text \<open>
  The body of the loop over the selected pages: the four tiers in turn, each run only
  while nothing is matched, then the assignment pushed for the page.
\<close>

definition matchPage ::
  "string list \<Rightarrow> (string \<times> tool list) list \<Rightarrow> pageWithType list \<Rightarrow> string set \<Rightarrow> string
     \<Rightarrow> matchState"
where
  "matchPage instructions instructionTools pageTypes used pg =
     (let pageType = pageContentType pageTypes pg;
          st0 = \<lparr>matchedInstruction = None, matchedTool = None, usedInstructions = used\<rparr>;
          st1 = explicitMention pg pageType instructionTools st0;
          st2 = (if unmatched st1 then contentTypeMatch pageType instructionTools st1 else st1);
          st3 = (if unmatched st2 then firstAvailable instructionTools st2 else st2)
      in if unmatched st3 then useDefault instructions st3 else st3)"

text \<open>
  The entry pushed to \<^verbatim>\<open>pageInstructions\<close>. After the last tier an instruction and a
  tool are always set; \<^verbatim>\<open>matchedTool || 'ai_powered_search'\<close> is kept as the source has it.
\<close>

record assignment =
  page :: string
  instruction :: string
  tool :: tool

definition assignmentOf :: "string \<Rightarrow> matchState \<Rightarrow> assignment" where
  "assignmentOf pg st =
     \<lparr>page = pg,
      instruction = (case matchedInstruction st of Some i \<Rightarrow> i | None \<Rightarrow> []),
      tool = (case matchedTool st of Some t \<Rightarrow> t | None \<Rightarrow> ai_powered_search)\<rparr>"

definition pageStep ::
  "string list \<Rightarrow> (string \<times> tool list) list \<Rightarrow> pageWithType list
     \<Rightarrow> assignment list \<times> string set \<Rightarrow> string \<Rightarrow> assignment list \<times> string set"
where
  "pageStep instructions instructionTools pageTypes acc pg =
     (let st = matchPage instructions instructionTools pageTypes (snd acc) pg
      in (fst acc @ [assignmentOf pg st], usedInstructions st))"

definition pageInstructionsLoop ::
  "string list \<Rightarrow> (string \<times> tool list) list \<Rightarrow> pageWithType list \<Rightarrow> string list
     \<Rightarrow> assignment list \<times> string set"
where
  "pageInstructionsLoop instructions instructionTools pageTypes selectedPages =
     foldl (pageStep instructions instructionTools pageTypes) ([], {}) selectedPages"

text \<open>
  \<^verbatim>\<open>pageInstructions\<close>, as the handler computes it from the instructions of the goal:
  inference, then the loop over the selected pages.
\<close>

definition assignPages :: "string list \<Rightarrow> pageWithType list \<Rightarrow> string list \<Rightarrow> assignment list" where
  "assignPages instructions pageTypes selectedPages =
     fst (pageInstructionsLoop instructions (instructionToolsOf instructions) pageTypes
            selectedPages)"

section \<open>Collaborators\<close>

text \<open>
  The calls of \<^verbatim>\<open>apiService\<close> that the handler makes, with their arguments in the order
  \<^verbatim>\<open>space_key\<close>, page title(s), then the instruction, query, image URL or question.
\<close>

datatype call =
    Search string "string list" string
  | CodeAssistant string string string
  | GetImages string string
  | ImageSummary string string string
  | VideoSummarizer string string
  | ImpactAnalyzer string string string string
  | TestSupport string string string string

text \<open>
  Of a response, the two fields that steer the handler are kept: \<^verbatim>\<open>original_code\<close> of the
  code assistant and \<^verbatim>\<open>images\<close> of the image listing, each possibly absent. Every other
  field only feeds the text shown to the user, which is not modelled: the formatters are
  outside the component, and so are the lists \<^verbatim>\<open>toolsTriggered\<close>, \<^verbatim>\<open>whyUsed\<close> and
  \<^verbatim>\<open>howDerived\<close> and the contents of the tabs.

  A backend answers a call with a response, or rejects it (\<open>None\<close>); the answer may depend
  on the calls made before it in the run.
\<close>

record response =
  original_code :: "string option"
  images :: "string list option"

type_synonym backend = "call list \<Rightarrow> call \<Rightarrow> response option"

text \<open>Awaiting a call: the call joins the trace, and the backend's answer comes back.\<close>

definition await :: "backend \<Rightarrow> call list \<Rightarrow> call \<Rightarrow> call list \<times> response option" where
  "await api tr c = (tr @ [c], api tr c)"

section \<open>Dispatch of one assignment\<close>

text \<open>The prompt of a related action of the code assistant (\<^verbatim>\<open>actionPromptMap\<close>).\<close>

definition actionPrompt :: "string \<Rightarrow> string \<Rightarrow> string" where
  "actionPrompt detectedCode action =
     (if regexTestI [Lit ''optimize'', Lit ''performance''] action
      then ''Optimize the following code for performance without changing its functionality, return only the updated code:''
           @ [CHR 0x0A, CHR 0x0A] @ detectedCode
      else if regexTestI [Lit ''documentation'', Lit ''docs'', Lit ''comment''] action
      then ''Generate inline documentation and function-level comments for the following code, return only the updated code by commenting the each line of the code.:''
           @ [CHR 0x0A, CHR 0x0A] @ detectedCode
      else if regexTestI [Lit ''refactor'', Lit ''structure''] action
      then ''Refactor the following code to improve structure, readability, and modularity, return only the updated code:''
           @ [CHR 0x0A, CHR 0x0A] @ detectedCode
      else if regexTestI [Lit ''dead code'', Lit ''unused''] action
      then ''Analyze the following code for any unsued code or dead code, return only the updated code by removing the dead code:''
           @ [CHR 0x0A, CHR 0x0A] @ detectedCode
      else if regexTestI [Lit ''logging'', Lit ''log''] action
      then ''Add appropriate logging statements to the following code for better traceability and debugging. Return only the updated code:''
           @ [CHR 0x0A, CHR 0x0A] @ detectedCode
      else if regexTestI [Lit ''summarize'', Lit ''summary''] action
      then ''Summarize the following code in clear and concise language:''
           @ [CHR 0x0A, CHR 0x0A] @ detectedCode
      else action)"

text \<open>
  The loop over the related actions: one call each, in order; a rejection ends the run.
  The result is the trace and \<open>Some ()\<close>, or \<open>None\<close> when a call rejected.
\<close>

fun codeActions ::
  "backend \<Rightarrow> string \<Rightarrow> string \<Rightarrow> string \<Rightarrow> call list \<Rightarrow> string list \<Rightarrow> call list \<times> unit option"
where
  "codeActions api space pg detectedCode tr [] = (tr, Some ())"
| "codeActions api space pg detectedCode tr (action # rest) =
     (case await api tr (CodeAssistant space pg (actionPrompt detectedCode action)) of
        (tr', None) \<Rightarrow> (tr', None)
      | (tr', Some result) \<Rightarrow> codeActions api space pg detectedCode tr' rest)"

text \<open>
  \<^verbatim>\<open>Promise.all\<close> over the images: every call is made, and the whole rejects when one
  of them does.
\<close>

fun imageSummaries ::
  "backend \<Rightarrow> string \<Rightarrow> string \<Rightarrow> call list \<Rightarrow> string list \<Rightarrow> call list \<times> unit option"
where
  "imageSummaries api space pg tr [] = (tr, Some ())"
| "imageSummaries api space pg tr (imgUrl # rest) =
     (case await api tr (ImageSummary space pg imgUrl) of
        (tr', r) \<Rightarrow>
          (case imageSummaries api space pg tr' rest of
             (tr'', r') \<Rightarrow> (tr'', if r = None then None else r')))"

definition settled :: "call list \<times> response option \<Rightarrow> call list \<times> unit option" where
  "settled r = (fst r, map_option (\<lambda>_. ()) (snd r))"

text \<open>
  The body of the dispatch loop: the branch is chosen by the tool of the assignment, and
  every tool without a branch of its own goes to the search.
\<close>

definition dispatch :: "backend \<Rightarrow> string \<Rightarrow> call list \<Rightarrow> assignment \<Rightarrow> call list \<times> unit option" where
  "dispatch api space tr a =
     (if tool a = code_assistant then
        (case await api tr (CodeAssistant space (page a) []) of
           (tr', None) \<Rightarrow> (tr', None)
         | (tr', Some initialResult) \<Rightarrow>
             codeActions api space (page a)
               (case original_code initialResult of None \<Rightarrow> [] | Some code \<Rightarrow> code)
               tr' (splitRelatedActions (instruction a)))
      else if tool a = image_insights then
        (case await api tr (GetImages space (page a)) of
           (tr', None) \<Rightarrow> (tr', None)
         | (tr', Some imgs) \<Rightarrow>
             (case images imgs of
                None \<Rightarrow> (tr', Some ())
              | Some [] \<Rightarrow> (tr', Some ())
              | Some (u # us) \<Rightarrow> imageSummaries api space (page a) tr' (u # us)))
      else if tool a = ai_powered_search then
        settled (await api tr (Search space [page a] (instruction a)))
      else if tool a = video_summarizer then
        settled (await api tr (VideoSummarizer space (page a)))
      else
        settled (await api tr (Search space [page a] (instruction a))))"

text \<open>
  \<^verbatim>\<open>pageResults\<close> is a plain object. Its own properties are kept in the order of their
  first insertion, each with the instruction and the tool of every assignment dispatched
  for the page.
\<close>

fun appendResult ::
  "(string \<times> (string \<times> tool) list) list \<Rightarrow> string \<Rightarrow> string \<times> tool
     \<Rightarrow> (string \<times> (string \<times> tool) list) list"
where
  "appendResult [] pg r = [(pg, [r])]"
| "appendResult ((k, rs) # rest) pg r =
     (if k = pg then (k, rs @ [r]) # rest else (k, rs) # appendResult rest pg r)"

text \<open>
  Reading \<^verbatim>\<open>pageResults[page]\<close> for a page that is no own property finds the members
  that every object inherits from \<^verbatim>\<open>Object.prototype\<close>. Such a member is truthy, so no
  array is stored for the page, and it has no \<^verbatim>\<open>push\<close>:
  \<^verbatim>\<open>pageResults[page].push(...)\<close> throws a \<^verbatim>\<open>TypeError\<close>, for which \<open>None\<close> stands.
\<close>

definition objectPrototypeMembers :: "string list" where
  "objectPrototypeMembers =
     [''constructor'', ''__defineGetter__'', ''__defineSetter__'', ''hasOwnProperty'',
      ''__lookupGetter__'', ''__lookupSetter__'', ''isPrototypeOf'', ''propertyIsEnumerable'',
      ''toString'', ''valueOf'', ''__proto__'', ''toLocaleString'']"

definition pushResult ::
  "(string \<times> (string \<times> tool) list) list \<Rightarrow> string \<Rightarrow> string \<times> tool
     \<Rightarrow> (string \<times> (string \<times> tool) list) list option"
where
  "pushResult pageResults pg r =
     (if List.member (map fst pageResults) pg then Some (appendResult pageResults pg r)
      else if List.member objectPrototypeMembers pg then None
      else Some (appendResult pageResults pg r))"

fun dispatchLoop ::
  "backend \<Rightarrow> string \<Rightarrow> call list \<Rightarrow> (string \<times> (string \<times> tool) list) list \<Rightarrow> assignment list
     \<Rightarrow> call list \<times> (string \<times> (string \<times> tool) list) list option"
where
  "dispatchLoop api space tr pageResults [] = (tr, Some pageResults)"
| "dispatchLoop api space tr pageResults (a # rest) =
     (case dispatch api space tr a of
        (tr', None) \<Rightarrow> (tr', None)
      | (tr', Some _) \<Rightarrow>
          (case pushResult pageResults (page a) (instruction a, tool a) of
             None \<Rightarrow> (tr', None)
           | Some pageResults' \<Rightarrow> dispatchLoop api space tr' pageResults' rest))"

section \<open>The two-page tools\<close>

definition comparePattern :: "alt list" where
  "comparePattern = [Lit ''impact'', Lit ''compare'', Lit ''difference'', Lit ''diff'']"

text \<open>
  With exactly two pages selected, the impact analyzer runs when an instruction matches
  \<^verbatim>\<open>/impact|compare|difference|diff/i\<close> and the test support when one matches
  \<^verbatim>\<open>/test|qa|test case|unit test/i\<close>. The result says which of the two blocks exist.
\<close>

definition twoPageTools ::
  "backend \<Rightarrow> string \<Rightarrow> string \<Rightarrow> string list \<Rightarrow> string list \<Rightarrow> call list
     \<Rightarrow> call list \<times> (bool \<times> bool) option"
where
  "twoPageTools api space goal instructions selectedPages tr =
     (case selectedPages of
        [firstPage, secondPage] \<Rightarrow>
          (let hasImpactInstruction = list_ex (regexTestI comparePattern) instructions;
               hasTestInstruction = list_ex (regexTestI testPattern) instructions;
               impact = (if hasImpactInstruction
                         then settled (await api tr (ImpactAnalyzer space firstPage secondPage goal))
                         else (tr, Some ()))
           in case impact of
                (tr', None) \<Rightarrow> (tr', None)
              | (tr', Some _) \<Rightarrow>
                  (if hasTestInstruction
                   then (case await api tr' (TestSupport space firstPage secondPage goal) of
                           (tr'', None) \<Rightarrow> (tr'', None)
                         | (tr'', Some _) \<Rightarrow> (tr'', Some (hasImpactInstruction, True)))
                   else (tr', Some (hasImpactInstruction, False))))
      | _ \<Rightarrow> (tr, Some (False, False)))"

section \<open>The handler\<close>

datatype resultBlock =
    ImpactAnalyzerResult
  | TestStrategyResult
  | PageResults string "(string \<times> tool) list"

record outputTab =
  tabId :: string
  tabLabel :: string
  tabResults :: "resultBlock list option"

text \<open>
  \<^verbatim>\<open>Object.entries\<close> lists the own properties whose key is an array index (a decimal
  numeral with no leading zero, below \<^verbatim>\<open>2^32 - 1\<close>) first, by ascending index, and then
  the other keys in the order of their insertion.
\<close>

definition isDigit :: "char \<Rightarrow> bool" where
  "isDigit c = (let n = of_char c :: nat in 48 \<le> n \<and> n \<le> 57)"

definition decimalValue :: "string \<Rightarrow> int" where
  "decimalValue s = foldl (\<lambda>v c. 10 * v + (of_char c - 48)) 0 s"

definition arrayIndex :: "string \<Rightarrow> int option" where
  "arrayIndex key =
     (if key = [] then None
      else if list_all isDigit key then
        (if startsWith key ''0'' \<and> 1 < length key then None
         else if decimalValue key < 4294967295 then Some (decimalValue key)
         else None)
      else None)"

definition indexOfKey :: "string \<Rightarrow> int" where
  "indexOfKey key = (case arrayIndex key of None \<Rightarrow> 0 | Some n \<Rightarrow> n)"

definition objectEntries :: "(string \<times> 'a) list \<Rightarrow> (string \<times> 'a) list" where
  "objectEntries properties =
     sort_key (\<lambda>kv. indexOfKey (fst kv)) (filter (\<lambda>kv. arrayIndex (fst kv) \<noteq> None) properties) @
     filter (\<lambda>kv. arrayIndex (fst kv) = None) properties"

definition outputTabsOf ::
  "(string \<times> (string \<times> tool) list) list \<Rightarrow> bool \<Rightarrow> bool \<Rightarrow> outputTab list"
where
  "outputTabsOf pageResults impactAnalyzerResult testStrategyResult =
     (if 0 < length pageResults \<or> impactAnalyzerResult \<or> testStrategyResult
      then [\<lparr>tabId = ''per-page-results'', tabLabel = ''Page Results'',
             tabResults = Some
               ((if impactAnalyzerResult then [ImpactAnalyzerResult] else []) @
                (if testStrategyResult then [TestStrategyResult] else []) @
                map (\<lambda>(pg, rs). PageResults pg rs) (objectEntries pageResults))\<rparr>]
      else []) @
     [\<lparr>tabId = ''reasoning'', tabLabel = ''Reasoning'', tabResults = None\<rparr>,
      \<lparr>tabId = ''selected-pages'', tabLabel = ''Selected Pages'', tabResults = None\<rparr>]"

text \<open>
  The body of the \<^verbatim>\<open>try\<close> block: segmentation, inference, matching, the dispatch loop
  from an empty trace, the two-page tools, and the tabs. \<open>None\<close> stands for a rejection
  or a \<^verbatim>\<open>TypeError\<close> that reaches the \<^verbatim>\<open>catch\<close>.
\<close>

definition orchestrate ::
  "backend \<Rightarrow> string \<Rightarrow> string \<Rightarrow> string list \<Rightarrow> pageWithType list
     \<Rightarrow> call list \<times> outputTab list option"
where
  "orchestrate api goal selectedSpace selectedPages pageTypes =
     (let instructions = splitInstructions goal;
          pageInstructions = assignPages instructions pageTypes selectedPages
      in case dispatchLoop api selectedSpace [] [] pageInstructions of
           (tr, None) \<Rightarrow> (tr, None)
         | (tr, Some pageResults) \<Rightarrow>
             (case twoPageTools api selectedSpace goal instructions selectedPages tr of
                (tr', None) \<Rightarrow> (tr', None)
              | (tr', Some (impactAnalyzerResult, testStrategyResult)) \<Rightarrow>
                  (tr', Some (outputTabsOf pageResults impactAnalyzerResult testStrategyResult))))"

text \<open>
  The part of the component's state that the claims read: the error message, the output
  tabs, the planning flag and the progress.
\<close>

record uiState =
  error :: string
  outputTabs :: "outputTab list"
  isPlanning :: bool
  progressPercent :: nat

text \<open>
  \<^verbatim>\<open>handleGoalSubmit\<close>: the state after the submission, and the collaborator calls it
  made, in order.
\<close>

definition handleGoalSubmit ::
  "backend \<Rightarrow> uiState \<Rightarrow> string \<Rightarrow> string \<Rightarrow> string list \<Rightarrow> pageWithType list
     \<Rightarrow> uiState \<times> call list"
where
  "handleGoalSubmit api ui goal selectedSpace selectedPages pageTypes =
     (if trim goal = [] \<or> selectedSpace = [] \<or> length selectedPages = 0
      then (ui\<lparr>error := ''Please enter a goal, select a space, and at least one page.''\<rparr>, [])
      else
        (let ui' = ui\<lparr>isPlanning := True, error := [], outputTabs := [], progressPercent := 0\<rparr>
         in case orchestrate api goal selectedSpace selectedPages pageTypes of
              (tr, Some tabs) \<Rightarrow>
                (ui'\<lparr>outputTabs := tabs, isPlanning := False, progressPercent := 100\<rparr>, tr)
            | (tr, None) \<Rightarrow>
                (ui'\<lparr>error := ''An error occurred during orchestration.'',
                     isPlanning := False, progressPercent := 100\<rparr>, tr)))"

section \<open>Observations on a trace\<close>

text \<open>The calls of the per-page branches: search, code assistant, images and video.\<close>

fun perPageCall :: "call \<Rightarrow> bool" where
  "perPageCall (Search space pages query) = True"
| "perPageCall (CodeAssistant space pg instr) = True"
| "perPageCall (GetImages space pg) = True"
| "perPageCall (ImageSummary space pg url) = True"
| "perPageCall (VideoSummarizer space pg) = True"
| "perPageCall (ImpactAnalyzer space oldPage newPage question) = False"
| "perPageCall (TestSupport space codePage testInputPage question) = False"

text \<open>
  \<open>rejectedIn api tr cs\<close>: some call of \<open>cs\<close>, made in this order after the trace \<open>tr\<close>,
  is rejected by the backend.
\<close>

fun rejectedIn :: "backend \<Rightarrow> call list \<Rightarrow> call list \<Rightarrow> bool" where
  "rejectedIn api tr [] = False"
| "rejectedIn api tr (c # cs) = (if api tr c = None then True else rejectedIn api (tr @ [c]) cs)"

section \<open>Goals without a separator\<close>

text \<open>
  A goal contains a separator token when the separator of \<^verbatim>\<open>splitInstructions\<close> matches
  at one of its positions: \<^verbatim>\<open>and\<close> or \<^verbatim>\<open>then\<close> between word boundaries, a newline, a
  carriage return, a period, a semicolon, a comma, a double pipe, or a pipe followed by
  white space.
\<close>

fun separatorScan :: "char option \<Rightarrow> string \<Rightarrow> bool" where
  "separatorScan prev [] = False"
| "separatorScan prev (c # cs) =
     (if instructionSeparator prev (c # cs) = None then separatorScan (Some c) cs else True)"

definition containsSeparator :: "string \<Rightarrow> bool" where
  "containsSeparator s = separatorScan None s"

section \<open>Properties of the segmentation\<close>

lemma foldl_push: "foldl (\<lambda>acc x. acc @ [x]) acc xs = acc @ xs"
  by (induction xs arbitrary: acc) auto

lemma splitInstructions_filter:
  "splitInstructions input =
     filter (\<lambda>instr. 3 < length instr) (map trim (jsSplit instructionSeparator input))"
proof -
  have "filter (\<lambda>instr. 0 < length instr \<and> 3 < length instr) xs =
        filter (\<lambda>instr. 3 < length instr) xs" for xs :: "string list"
    by (rule filter_cong) auto
  then show ?thesis
    unfolding splitInstructions_def Let_def by (simp add: foldl_push)
qed

lemma splitLoop_no_separator:
  "\<not> separatorScan prev s \<Longrightarrow> splitLoop instructionSeparator prev 0 cur s = [cur @ s]"
  by (induction s arbitrary: prev cur) (auto split: if_splits)

text \<open>
  Claim C3, as the code has it: segmentation is a total function, and it returns at least
  one instruction exactly when some fragment of the split is longer than three characters
  once trimmed. A goal that is not empty after trimming can therefore give no instruction.
\<close>

theorem splitInstructions_nonempty_iff:
  "splitInstructions input \<noteq> [] \<longleftrightarrow>
     list_ex (\<lambda>f. 3 < length (trim f)) (jsSplit instructionSeparator input)"
  by (simp add: splitInstructions_filter filter_empty_conv list_ex_iff)

theorem splitInstructions_nonempty_iff_witness:
  "list_ex (\<lambda>f. 3 < length (trim f)) (jsSplit instructionSeparator ''fix, then deploy it'') \<and>
   splitInstructions ''fix, then deploy it'' \<noteq> []"
proof -
  have h: "list_ex (\<lambda>f. 3 < length (trim f)) (jsSplit instructionSeparator ''fix, then deploy it'')"
    by code_simp
  show ?thesis
    using splitInstructions_nonempty_iff [of "''fix, then deploy it''"] h by simp
qed

text \<open>
  The goal \<^verbatim>\<open>fix\<close> is not empty after trimming, and its segmentation is empty: claim C3
  as stated fails there.
\<close>

theorem splitInstructions_fix_empty:
  "trim ''fix'' \<noteq> [] \<and> splitInstructions ''fix'' = []"
  by code_simp

text \<open>
  Claim C8, as the code has it: a goal with no separator token gives exactly one
  instruction, the trimmed goal, when the trimmed goal is longer than three characters,
  and no instruction otherwise.
\<close>

theorem splitInstructions_no_separator:
  "\<not> containsSeparator goal \<Longrightarrow>
     splitInstructions goal = (if 3 < length (trim goal) then [trim goal] else [])"
  using splitLoop_no_separator [of None goal "[]"]
  by (simp add: splitInstructions_filter containsSeparator_def jsSplit_def)

theorem splitInstructions_no_separator_witness:
  "\<not> containsSeparator '' Summarize the onboarding guide '' \<and>
   splitInstructions '' Summarize the onboarding guide '' = [''Summarize the onboarding guide'']"
proof -
  have h: "\<not> containsSeparator '' Summarize the onboarding guide ''"
    by code_simp
  have t: "trim '' Summarize the onboarding guide '' = ''Summarize the onboarding guide''"
    by code_simp
  show ?thesis
    using splitInstructions_no_separator [OF h] h by (simp add: t)
qed

text \<open>
  The goal \<^verbatim>\<open> ok \<close> has no separator token and its trimmed form is \<^verbatim>\<open>ok\<close>, yet its
  segmentation is empty: claim C8 as stated fails there.
\<close>

theorem splitInstructions_short_goal:
  "\<not> containsSeparator '' ok '' \<and> trim '' ok '' = ''ok'' \<and> splitInstructions '' ok '' = []"
  by code_simp

section \<open>Properties of the matching\<close>

lemma pageStep_fst:
  "fst (pageStep ins its pts acc pg) =
     fst acc @ [assignmentOf pg (matchPage ins its pts (snd acc) pg)]"
  by (simp add: pageStep_def Let_def)

lemma foldl_pageStep_pages:
  "map page (fst (foldl (pageStep ins its pts) acc pgs)) = map page (fst acc) @ pgs"
  by (induction pgs arbitrary: acc) (simp_all add: pageStep_fst assignmentOf_def)

text \<open>
  Claim C5: whatever the pages, the instructions and their tools, the loop gives one
  assignment for each selected page, in the order of the selection: the pages of the
  assignments are the selected pages, and there are as many.
\<close>

theorem one_assignment_per_page:
  "map page (fst (pageInstructionsLoop instructions instructionTools pageTypes selectedPages))
     = selectedPages \<and>
   length (fst (pageInstructionsLoop instructions instructionTools pageTypes selectedPages))
     = length selectedPages \<and>
   map page (assignPages instructions pageTypes selectedPages) = selectedPages"
proof -
  let ?as = "fst (pageInstructionsLoop instructions instructionTools pageTypes selectedPages)"
  have m: "map page ?as = selectedPages"
    by (simp add: pageInstructionsLoop_def foldl_pageStep_pages)
  have "length ?as = length (map page ?as)"
    by simp
  also have "\<dots> = length selectedPages"
    by (simp only: m)
  finally have l: "length ?as = length selectedPages" .
  have a: "map page (assignPages instructions pageTypes selectedPages) = selectedPages"
    by (simp add: assignPages_def pageInstructionsLoop_def foldl_pageStep_pages)
  show ?thesis using m l a by blast
qed

lemma matchPage_no_instructions:
  "matchPage [] [] pts used pg =
     \<lparr>matchedInstruction = Some ''Analyze this content'', matchedTool = Some ai_powered_search,
      usedInstructions = used\<rparr>"
  by (simp add: matchPage_def unmatched_def useDefault_def defaultInstruction_def)

lemma foldl_pageStep_no_instructions:
  "fst (foldl (pageStep [] [] pts) acc pgs) =
     fst acc @
     map (\<lambda>pg. \<lparr>page = pg, instruction = ''Analyze this content'', tool = ai_powered_search\<rparr>) pgs"
  by (induction pgs arbitrary: acc)
     (simp_all add: pageStep_def matchPage_no_instructions assignmentOf_def)

text \<open>
  Claim C10: when every fragment of the goal has at most three characters once trimmed,
  segmentation returns no instruction, and every selected page gets the instruction
  \<^verbatim>\<open>Analyze this content\<close> with the search tool.
\<close>

theorem short_fragments_get_default_assignment:
  "list_all (\<lambda>f. length (trim f) \<le> 3) (jsSplit instructionSeparator goal) \<Longrightarrow>
   splitInstructions goal = [] \<and>
   assignPages (splitInstructions goal) pageTypes selectedPages =
     map (\<lambda>pg. \<lparr>page = pg, instruction = ''Analyze this content'', tool = ai_powered_search\<rparr>)
       selectedPages"
proof -
  assume a: "list_all (\<lambda>f. length (trim f) \<le> 3) (jsSplit instructionSeparator goal)"
  have e: "splitInstructions goal = []"
    using a by (auto simp add: splitInstructions_filter filter_empty_conv list_all_iff)
  show ?thesis
    by (simp add: e assignPages_def pageInstructionsLoop_def foldl_pageStep_no_instructions)
qed

theorem short_fragments_get_default_assignment_witness:
  "trim ''fix'' \<noteq> [] \<and>
   list_all (\<lambda>f. length (trim f) \<le> 3) (jsSplit instructionSeparator ''fix'') \<and>
   assignPages (splitInstructions ''fix'') [\<lparr>title = ''auth.py'', content_type = ''code''\<rparr>] [''API Docs'', ''auth.py''] =
     [\<lparr>page = ''API Docs'', instruction = ''Analyze this content'', tool = ai_powered_search\<rparr>,
      \<lparr>page = ''auth.py'', instruction = ''Analyze this content'', tool = ai_powered_search\<rparr>]"
proof -
  have h: "list_all (\<lambda>f. length (trim f) \<le> 3) (jsSplit instructionSeparator ''fix'')"
    by code_simp
  have t: "trim ''fix'' \<noteq> []"
    by code_simp
  note short_fragments_get_default_assignment
      [OF h, of "[\<lparr>title = ''auth.py'', content_type = ''code''\<rparr>]" "[''API Docs'', ''auth.py'']",
       THEN conjunct2]
  then have a: "assignPages (splitInstructions ''fix'') [\<lparr>title = ''auth.py'', content_type = ''code''\<rparr>]
             [''API Docs'', ''auth.py''] =
     [\<lparr>page = ''API Docs'', instruction = ''Analyze this content'', tool = ai_powered_search\<rparr>,
      \<lparr>page = ''auth.py'', instruction = ''Analyze this content'', tool = ai_powered_search\<rparr>]"
    by simp
  show ?thesis
    by (rule conjI [OF t conjI [OF h a]])
qed

text \<open>
  Claim C2, as the code has it: for the pages \<^verbatim>\<open>API Docs\<close> (text) and \<^verbatim>\<open>auth.py\<close> (code)
  and the goal \<^verbatim>\<open>Summarize API Docs and refactor auth.py\<close>, the assignments are
  (\<^verbatim>\<open>API Docs\<close>, \<^verbatim>\<open>Summarize API Docs\<close>, search), found by the explicit mention, and
  (\<^verbatim>\<open>auth.py\<close>, \<^verbatim>\<open>refactor auth\<close>, code assistant), found by the content-type tier: the
  period of \<^verbatim>\<open>auth.py\<close> is a separator, so the instruction stops before it and mentions
  no page.
\<close>

theorem api_docs_auth_py_assignments:
  "splitInstructions ''Summarize API Docs and refactor auth.py'' =
     [''Summarize API Docs'', ''refactor auth''] \<and>
   assignPages (splitInstructions ''Summarize API Docs and refactor auth.py'')
     [\<lparr>title = ''API Docs'', content_type = ''text''\<rparr>,
      \<lparr>title = ''auth.py'', content_type = ''code''\<rparr>]
     [''API Docs'', ''auth.py''] =
     [\<lparr>page = ''API Docs'', instruction = ''Summarize API Docs'', tool = ai_powered_search\<rparr>,
      \<lparr>page = ''auth.py'', instruction = ''refactor auth'', tool = code_assistant\<rparr>] \<and>
   explicitMention ''API Docs'' ''text''
     (instructionToolsOf (splitInstructions ''Summarize API Docs and refactor auth.py''))
     \<lparr>matchedInstruction = None, matchedTool = None, usedInstructions = {}\<rparr> =
     \<lparr>matchedInstruction = Some ''Summarize API Docs'', matchedTool = Some ai_powered_search,
      usedInstructions = {''Summarize API Docs''}\<rparr> \<and>
   explicitMention ''auth.py'' ''code''
     (instructionToolsOf (splitInstructions ''Summarize API Docs and refactor auth.py''))
     \<lparr>matchedInstruction = None, matchedTool = None, usedInstructions = {''Summarize API Docs''}\<rparr> =
     \<lparr>matchedInstruction = None, matchedTool = None, usedInstructions = {''Summarize API Docs''}\<rparr> \<and>
   contentTypeMatch ''code''
     (instructionToolsOf (splitInstructions ''Summarize API Docs and refactor auth.py''))
     \<lparr>matchedInstruction = None, matchedTool = None, usedInstructions = {''Summarize API Docs''}\<rparr> =
     \<lparr>matchedInstruction = Some ''refactor auth'', matchedTool = Some code_assistant,
      usedInstructions = {''Summarize API Docs'', ''refactor auth''}\<rparr>"
  by code_simp

text \<open>
  Claim C2 as stated fails: the instruction of \<^verbatim>\<open>auth.py\<close> does not contain
  \<^verbatim>\<open>refactor auth.py\<close>, and the explicit-mention tier finds nothing for that page.
\<close>

theorem auth_py_not_explicit_mention:
  "map instruction
     (assignPages (splitInstructions ''Summarize API Docs and refactor auth.py'')
        [\<lparr>title = ''API Docs'', content_type = ''text''\<rparr>,
         \<lparr>title = ''auth.py'', content_type = ''code''\<rparr>]
        [''API Docs'', ''auth.py'']) = [''Summarize API Docs'', ''refactor auth''] \<and>
   \<not> includesStr ''refactor auth'' ''refactor auth.py'' \<and>
   unmatched
     (explicitMention ''auth.py'' ''code''
        (instructionToolsOf (splitInstructions ''Summarize API Docs and refactor auth.py''))
        \<lparr>matchedInstruction = None, matchedTool = None,
         usedInstructions = {''Summarize API Docs''}\<rparr>)"
  by code_simp

subsection \<open>The used instructions\<close>

lemma explicitMention_cases:
  "explicitMention pg pt its st = st \<or>
   (\<exists>i tools. (i, tools) \<in> set its \<and> mentionsPage i pg \<and>
      explicitMention pg pt its st =
        st\<lparr>matchedInstruction := Some i, matchedTool := Some (bestToolFor pt tools),
           usedInstructions := insert i (usedInstructions st)\<rparr>)"
  by (induction pg pt its st rule: explicitMention.induct) auto

lemma contentTypeMatch_cases:
  "(contentTypeMatch pt its st = st \<and> fst ` set its \<subseteq> usedInstructions st) \<or>
   (\<exists>i tools. (i, tools) \<in> set its \<and> i \<notin> usedInstructions st \<and>
      contentTypeMatch pt its st =
        st\<lparr>matchedInstruction := Some i,
           matchedTool := Some (keywordOverride pt (toLowerCase i) (bestToolFor pt tools)),
           usedInstructions := insert i (usedInstructions st)\<rparr>)"
  by (induction pt its st rule: contentTypeMatch.induct) auto

lemma firstAvailable_cases:
  "(firstAvailable its st = st \<and> fst ` set its \<subseteq> usedInstructions st) \<or>
   (\<exists>i tools. (i, tools) \<in> set its \<and> i \<notin> usedInstructions st \<and>
      firstAvailable its st =
        st\<lparr>matchedInstruction := Some i,
           matchedTool := Some (case tools of t # _ \<Rightarrow> t | [] \<Rightarrow> ai_powered_search),
           usedInstructions := insert i (usedInstructions st)\<rparr>)"
  by (induction its st rule: firstAvailable.induct) auto








text \<open>
  The third tier is idle: with non-empty instructions, whenever the content-type tier
  finds no unused instruction, the third tier finds none either, so that a page is matched
  by the explicit mention, by the content type, or by the default.
\<close>

theorem first_available_tier_is_idle:
  assumes h: "[] \<notin> fst ` set instructionTools"
  shows "matchPage instructions instructionTools pageTypes used pg =
     (let pageType = pageContentType pageTypes pg;
          st0 = \<lparr>matchedInstruction = None, matchedTool = None, usedInstructions = used\<rparr>;
          st1 = explicitMention pg pageType instructionTools st0;
          st2 = (if unmatched st1 then contentTypeMatch pageType instructionTools st1 else st1)
      in if unmatched st2 then useDefault instructions st2 else st2)"
proof -
  let ?pt = "pageContentType pageTypes pg"
  let ?st0 = "\<lparr>matchedInstruction = None, matchedTool = None, usedInstructions = used\<rparr>"
  let ?st1 = "explicitMention pg ?pt instructionTools ?st0"
  let ?st2 = "if unmatched ?st1 then contentTypeMatch ?pt instructionTools ?st1 else ?st1"
  have ne: "i \<noteq> []" if "(i, tools) \<in> set instructionTools" for i tools
    using h that by force
  have "firstAvailable instructionTools ?st2 = ?st2" if u: "unmatched ?st2"
  proof -
    have u1: "unmatched ?st1" using u by (auto split: if_splits)
    have e: "?st1 = ?st0"
      using explicitMention_cases [of pg ?pt instructionTools ?st0] u1 h
      by (force simp add: unmatched_def)
    have c: "contentTypeMatch ?pt instructionTools ?st0 = ?st0 \<and>
             fst ` set instructionTools \<subseteq> usedInstructions ?st0"
      using contentTypeMatch_cases [of ?pt instructionTools ?st0] u u1 ne
      unfolding e by (auto simp add: unmatched_def)
    then show ?thesis
      using firstAvailable_cases [of instructionTools ?st0] u1
      unfolding e by auto
  qed
  then show ?thesis
    by (simp add: matchPage_def Let_def)
qed

theorem first_available_tier_is_idle_witness:
  "[] \<notin> fst ` set [(''what changed'', [impact_analyzer])] \<and>
   matchPage [''what changed''] [(''what changed'', [impact_analyzer])] [] {''what changed''}
     ''New spec'' =
     \<lparr>matchedInstruction = Some ''what changed'', matchedTool = Some ai_powered_search,
      usedInstructions = {''what changed''}\<rparr>"
proof -
  have h: "[] \<notin> fst ` set [(''what changed'', [impact_analyzer])]"
    by simp
  have e: "(let pageType = pageContentType [] ''New spec'';
          st0 = \<lparr>matchedInstruction = None, matchedTool = None,
                 usedInstructions = {''what changed''}\<rparr>;
          st1 = explicitMention ''New spec'' pageType [(''what changed'', [impact_analyzer])] st0;
          st2 = (if unmatched st1
                 then contentTypeMatch pageType [(''what changed'', [impact_analyzer])] st1
                 else st1)
      in if unmatched st2 then useDefault [''what changed''] st2 else st2) =
     \<lparr>matchedInstruction = Some ''what changed'', matchedTool = Some ai_powered_search,
      usedInstructions = {''what changed''}\<rparr>"
    by code_simp
  show ?thesis
    using first_available_tier_is_idle
      [OF h, of "[''what changed'']" "[]" "{''what changed''}" "''New spec''"] h
    unfolding e by simp
qed

section \<open>Properties of the handler\<close>

lemma rejectedIn_append:
  "rejectedIn api tr (xs @ ys) = (rejectedIn api tr xs \<or> rejectedIn api (tr @ xs) ys)"
  by (induction xs arbitrary: tr) auto

lemma codeActions_run:
  "\<exists>new. fst (codeActions api space pg code tr actions) = tr @ new \<and>
         (snd (codeActions api space pg code tr actions) = None) = rejectedIn api tr new \<and>
         list_all perPageCall new"
proof (induction actions arbitrary: tr)
  case Nil
  show ?case by simp
next
  case (Cons action rest)
  let ?c = "CodeAssistant space pg (actionPrompt code action)"
  show ?case
  proof (cases "api tr ?c")
    case None
    then have "codeActions api space pg code tr (action # rest) = (tr @ [?c], None)"
      by (simp add: await_def)
    moreover have "rejectedIn api tr [?c]" using None by simp
    ultimately show ?thesis
      by (intro exI [of _ "[?c]"]) simp
  next
    case (Some r)
    from Cons.IH [of "tr @ [?c]"] obtain new where
      n: "fst (codeActions api space pg code (tr @ [?c]) rest) = (tr @ [?c]) @ new"
         "(snd (codeActions api space pg code (tr @ [?c]) rest) = None) = rejectedIn api (tr @ [?c]) new"
         "list_all perPageCall new"
      by (elim exE conjE)
    have e: "codeActions api space pg code tr (action # rest) = codeActions api space pg code (tr @ [?c]) rest"
      using Some by (simp add: await_def)
    show ?thesis
      unfolding e using n Some by (intro exI [of _ "?c # new"]) simp
  qed
qed

lemma imageSummaries_run:
  "\<exists>new. fst (imageSummaries api space pg tr urls) = tr @ new \<and>
         (snd (imageSummaries api space pg tr urls) = None) = rejectedIn api tr new \<and>
         list_all perPageCall new"
proof (induction urls arbitrary: tr)
  case Nil
  show ?case by simp
next
  case (Cons url rest)
  let ?c = "ImageSummary space pg url"
  from Cons.IH [of "tr @ [?c]"] obtain new where
    n: "fst (imageSummaries api space pg (tr @ [?c]) rest) = (tr @ [?c]) @ new"
       "(snd (imageSummaries api space pg (tr @ [?c]) rest) = None) = rejectedIn api (tr @ [?c]) new"
       "list_all perPageCall new"
    by (elim exE conjE)
  show ?case
    using n by (intro exI [of _ "?c # new"]) (auto simp add: await_def split: prod.splits)
qed

lemma settled_await_run:
  "fst (settled (await api tr c)) = tr @ [c] \<and>
   (snd (settled (await api tr c)) = None) = rejectedIn api tr [c]"
  by (simp add: settled_def await_def)

lemma dispatch_run:
  "\<exists>new. fst (dispatch api space tr a) = tr @ new \<and>
         (snd (dispatch api space tr a) = None) = rejectedIn api tr new \<and>
         list_all perPageCall new"
proof -
  consider (code) "tool a = code_assistant" | (image) "tool a \<noteq> code_assistant" "tool a = image_insights"
    | (video) "tool a \<noteq> code_assistant" "tool a \<noteq> image_insights" "tool a \<noteq> ai_powered_search" "tool a = video_summarizer"
    | (search) "tool a \<noteq> code_assistant" "tool a \<noteq> image_insights" "tool a = ai_powered_search \<or> tool a \<noteq> video_summarizer"
    by blast
  then show ?thesis
  proof cases
    case code
    let ?c = "CodeAssistant space (page a) []"
    show ?thesis
    proof (cases "api tr ?c")
      case None
      then show ?thesis using code
        by (intro exI [of _ "[?c]"]) (simp add: dispatch_def await_def)
    next
      case (Some r)
      let ?d = "case original_code r of None \<Rightarrow> [] | Some code \<Rightarrow> code"
      from codeActions_run [of api space "page a" ?d "tr @ [?c]" "splitRelatedActions (instruction a)"]
      obtain new where
        n: "fst (codeActions api space (page a) ?d (tr @ [?c]) (splitRelatedActions (instruction a))) = (tr @ [?c]) @ new"
         "(snd (codeActions api space (page a) ?d (tr @ [?c]) (splitRelatedActions (instruction a))) = None) = rejectedIn api (tr @ [?c]) new"
         "list_all perPageCall new"
        by (elim exE conjE)
      show ?thesis
        using n Some code by (intro exI [of _ "?c # new"]) (simp add: dispatch_def await_def)
    qed
  next
    case image
    let ?c = "GetImages space (page a)"
    show ?thesis
    proof (cases "api tr ?c")
      case None
      then show ?thesis using image
        by (intro exI [of _ "[?c]"]) (simp add: dispatch_def await_def)
    next
      case (Some r)
      show ?thesis
      proof (cases "\<exists>u us. images r = Some (u # us)")
        case True
        then obtain u us where i: "images r = Some (u # us)" by blast
        from imageSummaries_run [of api space "page a" "tr @ [?c]" "u # us"]
        obtain new where
          n: "fst (imageSummaries api space (page a) (tr @ [?c]) (u # us)) = (tr @ [?c]) @ new"
           "(snd (imageSummaries api space (page a) (tr @ [?c]) (u # us)) = None) = rejectedIn api (tr @ [?c]) new"
           "list_all perPageCall new"
          by (elim exE conjE)
        show ?thesis
          using n Some image i
          by (intro exI [of _ "?c # new"]) (simp add: dispatch_def await_def del: imageSummaries.simps)
      next
        case False
        then have "dispatch api space tr a = (tr @ [?c], Some ())"
          using Some image by (auto simp add: dispatch_def await_def split: option.splits list.splits)
        then show ?thesis using Some
          by (intro exI [of _ "[?c]"]) simp
      qed
    qed
  next
    case video
    then show ?thesis
      by (intro exI [of _ "[VideoSummarizer space (page a)]"])
         (simp add: dispatch_def settled_def await_def)
  next
    case search
    then show ?thesis
      by (intro exI [of _ "[Search space [page a] (instruction a)]"])
         (auto simp add: dispatch_def settled_def await_def)
  qed
qed

lemma dispatchLoop_run:
  "\<exists>new. fst (dispatchLoop api space tr rs as) = tr @ new \<and>
         (rejectedIn api tr new \<longrightarrow> snd (dispatchLoop api space tr rs as) = None) \<and>
         (snd (dispatchLoop api space tr rs as) = None \<longrightarrow>
            rejectedIn api tr new \<or>
            list_ex (\<lambda>pg. List.member objectPrototypeMembers pg) (map page as)) \<and>
         list_all perPageCall new"
proof (induction as arbitrary: tr rs)
  case Nil
  show ?case by simp
next
  case (Cons a rest)
  obtain tr' r where p: "dispatch api space tr a = (tr', r)"
    by (cases "dispatch api space tr a")
  from dispatch_run [of api space tr a] obtain new1 where
    d: "tr' = tr @ new1" "(r = None) = rejectedIn api tr new1" "list_all perPageCall new1"
    unfolding p by (elim exE conjE) simp
  show ?case
  proof (cases r)
    case None
    have e: "dispatchLoop api space tr rs (a # rest) = (tr @ new1, None)"
      using p d(1) None by simp
    show ?thesis unfolding e using d None
      by (intro exI [of _ new1]) simp
  next
    case (Some u)
    show ?thesis
    proof (cases "pushResult rs (page a) (instruction a, tool a)")
      case None
      then have m: "List.member objectPrototypeMembers (page a)"
        by (auto simp add: pushResult_def split: if_splits)
      have e: "dispatchLoop api space tr rs (a # rest) = (tr @ new1, None)"
        using p d(1) Some None by simp
      show ?thesis unfolding e using d m
        by (intro exI [of _ new1]) simp
    next
      case (Some rs')
      have e: "dispatchLoop api space tr rs (a # rest) = dispatchLoop api space (tr @ new1) rs' rest"
        using p d(1) \<open>r = Some u\<close> Some by simp
      from Cons.IH [of "tr @ new1" rs'] obtain new2 where
        n: "fst (dispatchLoop api space (tr @ new1) rs' rest) = (tr @ new1) @ new2"
           "rejectedIn api (tr @ new1) new2 \<longrightarrow>
              snd (dispatchLoop api space (tr @ new1) rs' rest) = None"
           "snd (dispatchLoop api space (tr @ new1) rs' rest) = None \<longrightarrow>
              rejectedIn api (tr @ new1) new2 \<or>
              list_ex (\<lambda>pg. List.member objectPrototypeMembers pg) (map page rest)"
           "list_all perPageCall new2"
        by (elim exE conjE)
      have nr: "\<not> rejectedIn api tr new1"
        using d(2) \<open>r = Some u\<close> by simp
      show ?thesis
        unfolding e using n d(3) nr
        by (intro exI [of _ "new1 @ new2"]) (auto simp add: rejectedIn_append)
    qed
  qed
qed

lemma twoPageTools_run:
  "\<exists>new. fst (twoPageTools api space goal ins pgs tr) = tr @ new \<and>
         (snd (twoPageTools api space goal ins pgs tr) = None) = rejectedIn api tr new \<and>
         (length pgs \<noteq> 2 \<longrightarrow> new = [])"
proof (cases "\<exists>p q. pgs = [p, q]")
  case False
  then have "twoPageTools api space goal ins pgs tr = (tr, Some (False, False))"
    by (auto simp add: twoPageTools_def split: list.splits)
  then show ?thesis by simp
next
  case True
  then obtain p q where pq: "pgs = [p, q]" by blast
  let ?i = "ImpactAnalyzer space p q goal"
  let ?t = "TestSupport space p q goal"
  let ?hi = "list_ex (regexTestI comparePattern) ins"
  let ?ht = "list_ex (regexTestI testPattern) ins"
  consider (none) "\<not> ?hi" "\<not> ?ht"
    | (test) "\<not> ?hi" "?ht"
    | (impactRej) "?hi" "api tr ?i = None"
    | (impact) "?hi" "api tr ?i \<noteq> None" "\<not> ?ht"
    | (both) "?hi" "api tr ?i \<noteq> None" "?ht"
    by blast
  then show ?thesis
  proof cases
    case none
    then show ?thesis
      by (intro exI [of _ "[]"]) (simp add: twoPageTools_def pq)
  next
    case test
    then show ?thesis
      by (intro exI [of _ "[?t]"])
         (auto simp add: twoPageTools_def pq await_def split: option.splits)
  next
    case impactRej
    then show ?thesis
      by (intro exI [of _ "[?i]"])
         (simp add: twoPageTools_def pq await_def settled_def)
  next
    case impact
    then show ?thesis
      by (intro exI [of _ "[?i]"])
         (auto simp add: twoPageTools_def pq await_def settled_def)
  next
    case both
    then show ?thesis
      by (intro exI [of _ "[?i, ?t]"])
         (auto simp add: twoPageTools_def pq await_def settled_def split: option.splits)
  qed
qed


lemma assignPages_pages: "map page (assignPages ins pts pgs) = pgs"
  by (simp add: assignPages_def pageInstructionsLoop_def foldl_pageStep_pages)

lemma orchestrate_run:
  "\<exists>d s. fst (orchestrate api goal space pgs pts) = d @ s \<and>
         (rejectedIn api [] (d @ s) \<longrightarrow> snd (orchestrate api goal space pgs pts) = None) \<and>
         (snd (orchestrate api goal space pgs pts) = None \<longrightarrow>
            rejectedIn api [] (d @ s) \<or>
            list_ex (\<lambda>pg. List.member objectPrototypeMembers pg) pgs) \<and>
         list_all perPageCall d \<and> (length pgs \<noteq> 2 \<longrightarrow> s = [])"
proof -
  let ?ins = "splitInstructions goal"
  let ?as = "assignPages ?ins pts pgs"
  obtain tr r where p: "dispatchLoop api space [] [] ?as = (tr, r)"
    by (cases "dispatchLoop api space [] [] ?as")
  from dispatchLoop_run [of api space "[]" "[]" ?as]
  have d: "rejectedIn api [] tr \<longrightarrow> r = None"
    "r = None \<longrightarrow>
       rejectedIn api [] tr \<or> list_ex (\<lambda>pg. List.member objectPrototypeMembers pg) pgs"
    "list_all perPageCall tr"
    unfolding p assignPages_pages by auto
  show ?thesis
  proof (cases r)
    case None
    then have "orchestrate api goal space pgs pts = (tr, None)"
      using p by (simp add: orchestrate_def Let_def)
    then show ?thesis using d None
      by (intro exI [of _ tr] exI [of _ "[]"]) simp
  next
    case (Some rs)
    obtain tr' r' where q: "twoPageTools api space goal ?ins pgs tr = (tr', r')"
      by (cases "twoPageTools api space goal ?ins pgs tr")
    from twoPageTools_run [of api space goal ?ins pgs tr] obtain s where
      t: "tr' = tr @ s" "(r' = None) = rejectedIn api tr s" "length pgs \<noteq> 2 \<longrightarrow> s = []"
      unfolding q by (elim exE conjE) simp
    have "fst (orchestrate api goal space pgs pts) = tr @ s \<and>
          (snd (orchestrate api goal space pgs pts) = None) = (r' = None)"
      using p q Some t(1) by (auto simp add: orchestrate_def Let_def split: option.splits)
    then show ?thesis using d t Some
      by (intro exI [of _ tr] exI [of _ s]) (auto simp add: rejectedIn_append)
  qed
qed

text \<open>
  Two runs of the model on page titles that a plain object treats specially: a page named
  \<^verbatim>\<open>constructor\<close> is dispatched and then ends the run in the \<^verbatim>\<open>catch\<close>, and titles that
  are array indices come first among the entries.
\<close>

lemma prototype_named_page_reaches_catch:
  "handleGoalSubmit (\<lambda>tr c. Some \<lparr>original_code = None, images = None\<rparr>)
     \<lparr>error = [], outputTabs = [], isPlanning = False, progressPercent = 0\<rparr>
     ''Summarize everything'' ''DOCS'' [''Roadmap'', ''constructor''] [] =
   (\<lparr>error = ''An error occurred during orchestration.'', outputTabs = [],
     isPlanning = False, progressPercent = 100\<rparr>,
    [Search ''DOCS'' [''Roadmap''] ''Summarize everything'',
     Search ''DOCS'' [''constructor''] ''Summarize everything''])"
  by code_simp

lemma objectEntries_array_indices_first:
  "map fst (objectEntries [(''Roadmap'', ()), (''10'', ()), (''2'', ()), (''007'', ()), (''0'', ())])
     = [''0'', ''2'', ''10'', ''Roadmap'', ''007'']"
  by code_simp

text \<open>
  Claim C6: when the goal is empty or only white space, or no space is selected, or no
  page is selected, the handler sets the validation message, changes nothing else, and
  calls no collaborator.
\<close>

theorem validation_failure_makes_no_call:
  "trim goal = [] \<or> selectedSpace = [] \<or> selectedPages = [] \<Longrightarrow>
   handleGoalSubmit api ui goal selectedSpace selectedPages pageTypes =
     (ui\<lparr>error := ''Please enter a goal, select a space, and at least one page.''\<rparr>, [])"
  by (auto simp add: handleGoalSubmit_def)

theorem validation_failure_makes_no_call_witness:
  "trim [CHR '' '', CHR 0x09, CHR '' ''] = [] \<and>
   handleGoalSubmit (\<lambda>tr c. Some \<lparr>original_code = None, images = None\<rparr>)
     \<lparr>error = [], outputTabs = [], isPlanning = False, progressPercent = 0\<rparr>
     [CHR '' '', CHR 0x09, CHR '' ''] ''DOCS'' [''Roadmap''] [] =
     (\<lparr>error = ''Please enter a goal, select a space, and at least one page.'',
       outputTabs = [], isPlanning = False, progressPercent = 0\<rparr>, [])"
proof -
  have t: "trim [CHR '' '', CHR 0x09, CHR '' ''] = []"
    by code_simp
  show ?thesis
    using validation_failure_makes_no_call
      [of "[CHR '' '', CHR 0x09, CHR '' '']" "''DOCS''" "[''Roadmap'']"
          "\<lambda>tr c. Some \<lparr>original_code = None, images = None\<rparr>"
          "\<lparr>error = [], outputTabs = [], isPlanning = False, progressPercent = 0\<rparr>" "[]"] t
    by simp
qed

text \<open>
  Claim C7: when the backend rejects one of the calls of a run, the handler ends with the
  message \<^verbatim>\<open>An error occurred during orchestration.\<close> and with no output tab, whatever
  the calls that were answered before.
\<close>

theorem rejection_gives_generic_error:
  "rejectedIn api [] (snd (handleGoalSubmit api ui goal selectedSpace selectedPages pageTypes)) \<Longrightarrow>
   fst (handleGoalSubmit api ui goal selectedSpace selectedPages pageTypes) =
     ui\<lparr>isPlanning := False, error := ''An error occurred during orchestration.'',
        outputTabs := [], progressPercent := 100\<rparr>"
proof -
  assume a: "rejectedIn api []
    (snd (handleGoalSubmit api ui goal selectedSpace selectedPages pageTypes))"
  obtain tr r where p: "orchestrate api goal selectedSpace selectedPages pageTypes = (tr, r)"
    by (cases "orchestrate api goal selectedSpace selectedPages pageTypes")
  from orchestrate_run [of api goal selectedSpace selectedPages pageTypes]
  have o: "rejectedIn api [] tr \<longrightarrow> r = None"
    unfolding p by auto
  have v: "\<not> (trim goal = [] \<or> selectedSpace = [] \<or> length selectedPages = 0)"
    using a by (auto simp add: handleGoalSubmit_def)
  have "snd (handleGoalSubmit api ui goal selectedSpace selectedPages pageTypes) = tr"
    using v p by (auto simp add: handleGoalSubmit_def Let_def split: option.splits)
  with a o have "r = None" by simp
  then show ?thesis
    using v p by (simp add: handleGoalSubmit_def Let_def)
qed

theorem rejection_gives_generic_error_witness:
  "snd (handleGoalSubmit
          (\<lambda>tr c. if c = Search ''DOCS'' [''Release notes''] ''Summarize everything'' then None
                   else Some \<lparr>original_code = None, images = None\<rparr>)
          \<lparr>error = [], outputTabs = [\<lparr>tabId = ''reasoning'', tabLabel = ''Reasoning'', tabResults = None\<rparr>],
           isPlanning = False, progressPercent = 100\<rparr>
          ''Summarize everything'' ''DOCS'' [''Roadmap'', ''Release notes''] []) =
     [Search ''DOCS'' [''Roadmap''] ''Summarize everything'',
      Search ''DOCS'' [''Release notes''] ''Summarize everything''] \<and>
   fst (handleGoalSubmit
          (\<lambda>tr c. if c = Search ''DOCS'' [''Release notes''] ''Summarize everything'' then None
                   else Some \<lparr>original_code = None, images = None\<rparr>)
          \<lparr>error = [], outputTabs = [\<lparr>tabId = ''reasoning'', tabLabel = ''Reasoning'', tabResults = None\<rparr>],
           isPlanning = False, progressPercent = 100\<rparr>
          ''Summarize everything'' ''DOCS'' [''Roadmap'', ''Release notes''] []) =
     \<lparr>error = ''An error occurred during orchestration.'', outputTabs = [],
      isPlanning = False, progressPercent = 100\<rparr>"
proof -
  let ?api = "\<lambda>tr c. if c = Search ''DOCS'' [''Release notes''] ''Summarize everything'' then None
                   else Some \<lparr>original_code = None, images = None\<rparr>"
  let ?ui = "\<lparr>error = [], outputTabs = [\<lparr>tabId = ''reasoning'', tabLabel = ''Reasoning'', tabResults = None\<rparr>],
           isPlanning = False, progressPercent = 100\<rparr>"
  let ?h = "handleGoalSubmit ?api ?ui ''Summarize everything'' ''DOCS'' [''Roadmap'', ''Release notes''] []"
  have t: "snd ?h = [Search ''DOCS'' [''Roadmap''] ''Summarize everything'',
      Search ''DOCS'' [''Release notes''] ''Summarize everything'']"
    by code_simp
  have r: "rejectedIn ?api [] (snd ?h)"
    unfolding t by simp
  show ?thesis
    using rejection_gives_generic_error [OF r] t by simp
qed

text \<open>
  Claim C9: the dispatch loop calls only the search, the code assistant, the image
  collaborators and the video summarizer; an assignment whose tool is the impact analyzer
  or the test support is sent to the search with its page and instruction; and a run with
  a number of selected pages other than two calls neither the impact analyzer nor the
  test support.
\<close>

theorem dispatch_never_calls_two_page_tools:
  "list_all perPageCall
     (drop (length tr) (fst (dispatchLoop api space tr rs pageInstructions))) \<and>
   (tool a = impact_analyzer \<or> tool a = test_support \<longrightarrow>
      fst (dispatch api space tr a) = tr @ [Search space [page a] (instruction a)]) \<and>
   (length selectedPages \<noteq> 2 \<longrightarrow>
      list_all perPageCall
        (snd (handleGoalSubmit api ui goal space selectedPages pageTypes)))"
proof (intro conjI impI)
  from dispatchLoop_run [of api space tr rs pageInstructions]
  show "list_all perPageCall
          (drop (length tr) (fst (dispatchLoop api space tr rs pageInstructions)))"
    by auto
next
  assume "tool a = impact_analyzer \<or> tool a = test_support"
  then show "fst (dispatch api space tr a) = tr @ [Search space [page a] (instruction a)]"
    by (auto simp add: dispatch_def settled_def await_def)
next
  assume n: "length selectedPages \<noteq> 2"
  obtain t r where p: "orchestrate api goal space selectedPages pageTypes = (t, r)"
    by (cases "orchestrate api goal space selectedPages pageTypes")
  from orchestrate_run [of api goal space selectedPages pageTypes] n
  have "list_all perPageCall t"
    unfolding p by auto
  then show "list_all perPageCall
               (snd (handleGoalSubmit api ui goal space selectedPages pageTypes))"
    using p by (auto simp add: handleGoalSubmit_def Let_def split: option.splits)
qed

theorem dispatch_never_calls_two_page_tools_witness:
  "fst (dispatch (\<lambda>tr c. Some \<lparr>original_code = None, images = None\<rparr>) ''DOCS'' []
          \<lparr>page = ''Old spec'', instruction = ''what changed'', tool = impact_analyzer\<rparr>) =
     [Search ''DOCS'' [''Old spec''] ''what changed''] \<and>
   list_all perPageCall
     (snd (handleGoalSubmit (\<lambda>tr c. Some \<lparr>original_code = None, images = None\<rparr>)
             \<lparr>error = [], outputTabs = [], isPlanning = False, progressPercent = 0\<rparr>
             ''run the unit test'' ''DOCS'' [''Old spec''] []))"
  using dispatch_never_calls_two_page_tools
    [of "[]" "\<lambda>tr c. Some \<lparr>original_code = None, images = None\<rparr>" "''DOCS''" "[]" "[]"
        "\<lparr>page = ''Old spec'', instruction = ''what changed'', tool = impact_analyzer\<rparr>"
        "[''Old spec'']"
        "\<lparr>error = [], outputTabs = [], isPlanning = False, progressPercent = 0\<rparr>"
        "''run the unit test''" "[]"]
  by simp

text \<open>
  The impact analyzer on the code: with exactly two pages selected, neither named like a
  member of \<^verbatim>\<open>Object.prototype\<close>, a goal and a space that pass validation, an
  instruction that matches \<^verbatim>\<open>/impact|compare|difference|diff/i\<close> and no call rejected,
  the run calls the impact analyzer with the first selected page as the old page and the
  second as the new one, and with the goal as the question.
\<close>

lemma twoPageTools_impact:
  "list_ex (regexTestI comparePattern) ins \<Longrightarrow>
   ImpactAnalyzer space p q goal \<in> set (fst (twoPageTools api space goal ins [p, q] tr))"
  by (auto simp add: twoPageTools_def await_def settled_def Let_def split: option.splits)

theorem impact_analyzer_runs_on_compare_keywords:
  assumes v: "trim goal \<noteq> []" "selectedSpace \<noteq> []"
    and k: "list_ex (regexTestI comparePattern) (splitInstructions goal)"
    and m: "list_all (\<lambda>pg. \<not> List.member objectPrototypeMembers pg) [oldPage, newPage]"
    and n: "\<not> rejectedIn api []
              (snd (handleGoalSubmit api ui goal selectedSpace [oldPage, newPage] pageTypes))"
  shows "ImpactAnalyzer selectedSpace oldPage newPage goal
           \<in> set (snd (handleGoalSubmit api ui goal selectedSpace [oldPage, newPage] pageTypes))"
proof -
  let ?ins = "splitInstructions goal"
  let ?pgs = "[oldPage, newPage]"
  let ?as = "assignPages ?ins pageTypes ?pgs"
  obtain tr r where p: "dispatchLoop api selectedSpace [] [] ?as = (tr, r)"
    by (cases "dispatchLoop api selectedSpace [] [] ?as")
  from dispatchLoop_run [of api selectedSpace "[]" "[]" ?as]
  have d: "r = None \<longrightarrow>
      rejectedIn api [] tr \<or> list_ex (\<lambda>pg. List.member objectPrototypeMembers pg) ?pgs"
    unfolding p assignPages_pages by auto
  have r: "r \<noteq> None"
  proof
    assume "r = None"
    then have "snd (handleGoalSubmit api ui goal selectedSpace ?pgs pageTypes) = tr"
      using v p by (simp add: handleGoalSubmit_def orchestrate_def Let_def)
    with n d m \<open>r = None\<close> show False by simp
  qed
  then obtain rs where rs: "r = Some rs" by auto
  have "snd (handleGoalSubmit api ui goal selectedSpace ?pgs pageTypes) =
        fst (twoPageTools api selectedSpace goal ?ins ?pgs tr)"
    using v p rs
    by (auto simp add: handleGoalSubmit_def orchestrate_def Let_def split: prod.splits option.splits)
  then show ?thesis
    using twoPageTools_impact [OF k] by simp
qed

theorem impact_analyzer_runs_on_compare_keywords_witness:
  "list_ex (regexTestI comparePattern) (splitInstructions ''compare them'') \<and>
   snd (handleGoalSubmit (\<lambda>tr c. Some \<lparr>original_code = None, images = None\<rparr>)
          \<lparr>error = [], outputTabs = [], isPlanning = False, progressPercent = 0\<rparr>
          ''compare them'' ''DOCS'' [''Old spec'', ''New spec''] []) =
     [Search ''DOCS'' [''Old spec''] ''compare them'',
      Search ''DOCS'' [''New spec''] ''compare them'',
      ImpactAnalyzer ''DOCS'' ''Old spec'' ''New spec'' ''compare them''] \<and>
   ImpactAnalyzer ''DOCS'' ''Old spec'' ''New spec'' ''compare them''
     \<in> set (snd (handleGoalSubmit (\<lambda>tr c. Some \<lparr>original_code = None, images = None\<rparr>)
                 \<lparr>error = [], outputTabs = [], isPlanning = False, progressPercent = 0\<rparr>
                 ''compare them'' ''DOCS'' [''Old spec'', ''New spec''] []))"
proof -
  let ?api = "\<lambda>tr c. Some \<lparr>original_code = None, images = None\<rparr>"
  let ?ui = "\<lparr>error = [], outputTabs = [], isPlanning = False, progressPercent = 0\<rparr>"
  let ?h = "handleGoalSubmit ?api ?ui ''compare them'' ''DOCS'' [''Old spec'', ''New spec''] []"
  have v: "trim ''compare them'' \<noteq> []" "''DOCS'' \<noteq> []"
    by code_simp+
  have k: "list_ex (regexTestI comparePattern) (splitInstructions ''compare them'')"
    by code_simp
  have t: "snd ?h =
     [Search ''DOCS'' [''Old spec''] ''compare them'',
      Search ''DOCS'' [''New spec''] ''compare them'',
      ImpactAnalyzer ''DOCS'' ''Old spec'' ''New spec'' ''compare them'']"
    by code_simp
  have n: "\<not> rejectedIn ?api [] (snd ?h)"
    unfolding t by simp
  have m: "list_all (\<lambda>pg. \<not> List.member objectPrototypeMembers pg) [''Old spec'', ''New spec'']"
    by code_simp
  note impact_analyzer_runs_on_compare_keywords [OF v k m n]
  with k t show ?thesis by (intro conjI)
qed

text \<open>
  Claim C1 on the code: with two pages selected and the goal \<^verbatim>\<open>what changed\<close>, inference
  asks for the impact analyzer, and the run makes two search calls and no call to the
  impact analyzer, since \<^verbatim>\<open>changed\<close> matches none of \<^verbatim>\<open>impact\<close>, \<^verbatim>\<open>compare\<close>,
  \<^verbatim>\<open>difference\<close> and \<^verbatim>\<open>diff\<close>.
\<close>

theorem what_changed_skips_impact_analyzer:
  "inferTools ''what changed'' = [impact_analyzer] \<and>
   handleGoalSubmit (\<lambda>tr c. Some \<lparr>original_code = None, images = None\<rparr>)
     \<lparr>error = [], outputTabs = [], isPlanning = False, progressPercent = 0\<rparr>
     ''what changed'' ''DOCS'' [''Old spec'', ''New spec''] [] =
     (\<lparr>error = [],
       outputTabs =
         [\<lparr>tabId = ''per-page-results'', tabLabel = ''Page Results'',
           tabResults = Some [PageResults ''Old spec'' [(''what changed'', impact_analyzer)],
                              PageResults ''New spec'' [(''what changed'', ai_powered_search)]]\<rparr>,
          \<lparr>tabId = ''reasoning'', tabLabel = ''Reasoning'', tabResults = None\<rparr>,
          \<lparr>tabId = ''selected-pages'', tabLabel = ''Selected Pages'', tabResults = None\<rparr>],
       isPlanning = False, progressPercent = 100\<rparr>,
      [Search ''DOCS'' [''Old spec''] ''what changed'',
       Search ''DOCS'' [''New spec''] ''what changed''])"
  by code_simp

end
